theory Spec2Isabelle
  imports Complex_Main "HOL-Library.Char_ord" "HOL-Library.List_Lexorder"
begin

section \<open>Python values used by the notebook\<close>

subsection \<open>Parsed sentences\<close>

text \<open>
  The feature functions receive \<^verbatim>\<open>nltk.tree.Tree\<close> objects. A tree has a label and a
  list of children; a child is either a word (a Python string) or a subtree. The only
  method the notebook calls is \<^verbatim>\<open>leaves()\<close>:
  \<^verbatim>\<open>
  def leaves(self):
      leaves = []
      for child in self:
          if isinstance(child, Tree):
              leaves.extend(child.leaves())
          else:
              leaves.append(child)
      return leaves
  \<close>
\<close>

datatype tree = Tree string "child list"
  and child = Word string | Sub tree

primrec leaves :: "tree \<Rightarrow> string list"
  and child_leaves :: "child \<Rightarrow> string list" where
  "leaves (Tree lab cs) = concat (map child_leaves cs)"
| "child_leaves (Word w) = [w]"
| "child_leaves (Sub t) = leaves t"

subsection \<open>Sets and counters\<close>

text \<open>
  A Python \<^verbatim>\<open>set\<close> built from a list keeps one copy of every element. Its iteration
  order is fixed by hashing and is not specified; the model iterates in the order of
  first occurrence, and the properties proved below are stated on the dictionary
  contents, which do not depend on that order.
\<close>

definition py_set :: "'a list \<Rightarrow> 'a list" where
  "py_set xs = remdups xs"

text \<open>
  \<^verbatim>\<open>collections.Counter\<close> is a dictionary from elements to counts. A dictionary keeps
  its keys in insertion order, so it is an association list with distinct keys.
  \<^verbatim>\<open>Counter(iterable)\<close> runs
  \<^verbatim>\<open>for elem in iterable: self[elem] = self.get(elem, 0) + 1\<close>.
\<close>

type_synonym 'a counter = "('a \<times> nat) list"

fun counter_incr :: "'a \<Rightarrow> 'a counter \<Rightarrow> 'a counter" where
  "counter_incr x [] = [(x, 1)]"
| "counter_incr x ((k, c) # kcs) =
     (if k = x then (k, c + 1) # kcs else (k, c) # counter_incr x kcs)"

definition Counter :: "'a list \<Rightarrow> 'a counter" where
  "Counter xs = fold counter_incr xs []"

text \<open>\<^verbatim>\<open>dict.keys()\<close> and \<^verbatim>\<open>dict.get(k)\<close>.\<close>

definition dict_keys :: "('k \<times> 'v) list \<Rightarrow> 'k list" where
  "dict_keys d = map fst d"

definition dict_get :: "('k \<times> 'v) list \<Rightarrow> 'k \<Rightarrow> 'v option" where
  "dict_get d k = map_of d k"

text \<open>\<^verbatim>\<open>itertools.product(xs, ys)\<close>: the pairs, the right component varying fastest.\<close>

definition product :: "'a list \<Rightarrow> 'b list \<Rightarrow> ('a \<times> 'b) list" where
  "product xs ys = concat (map (\<lambda>x. map (\<lambda>y. (x, y)) ys) xs)"

section \<open>Sparse feature functions\<close>

text \<open>
  \<^verbatim>\<open>
  def word_overlap_phi(t1, t2):
      overlap = set([w1 for w1 in t1.leaves() if w1 in t2.leaves()])
      return Counter(overlap)
  \<close>
\<close>

definition word_overlap_phi :: "tree \<Rightarrow> tree \<Rightarrow> string counter" where
  "word_overlap_phi t1 t2 =
     (let overlap = py_set [w1 \<leftarrow> leaves t1. w1 \<in> set (leaves t2)]
      in Counter overlap)"

text \<open>
  \<^verbatim>\<open>
  def word_cross_product_phi(t1, t2):
      return Counter([(w1, w2) for w1, w2 in product(t1.leaves(), t2.leaves())])
  \<close>
\<close>

definition word_cross_product_phi :: "tree \<Rightarrow> tree \<Rightarrow> (string \<times> string) counter" where
  "word_cross_product_phi t1 t2 =
     Counter [(w1, w2). (w1, w2) \<leftarrow> product (leaves t1) (leaves t2)]"


section \<open>Dense feature function\<close>

subsection \<open>Exceptions, dictionaries and arrays\<close>

datatype error = KeyError | StopIteration | ValueError | TypeError | AxisError | AttributeError
  | NameError

text \<open>
  A dictionary is an association list in insertion order. \<^verbatim>\<open>k in d\<close>, \<^verbatim>\<open>d[k]\<close> (which
  raises \<^verbatim>\<open>KeyError\<close> on a missing key), \<^verbatim>\<open>d.values()\<close> and \<^verbatim>\<open>next(iter(...))\<close>
  (which raises \<^verbatim>\<open>StopIteration\<close> on an exhausted iterator).
\<close>

definition dict_contains :: "('k \<times> 'v) list \<Rightarrow> 'k \<Rightarrow> bool" where
  "dict_contains d k = (k \<in> set (dict_keys d))"

definition dict_getitem :: "('k \<times> 'v) list \<Rightarrow> 'k \<Rightarrow> error + 'v" where
  "dict_getitem d k = (case map_of d k of None \<Rightarrow> Inl KeyError | Some v \<Rightarrow> Inr v)"

definition dict_values :: "('k \<times> 'v) list \<Rightarrow> 'v list" where
  "dict_values d = map snd d"

definition next_iter :: "'a list \<Rightarrow> error + 'a" where
  "next_iter xs = (case xs of [] \<Rightarrow> Inl StopIteration | x # _ \<Rightarrow> Inr x)"

text \<open>A list comprehension whose element expression can raise: the first exception wins.\<close>

fun comprehension :: "('a \<Rightarrow> error + 'b) \<Rightarrow> 'a list \<Rightarrow> error + 'b list" where
  "comprehension f [] = Inr []"
| "comprehension f (x # xs) =
     (case f x of
        Inl e \<Rightarrow> Inl e
      | Inr y \<Rightarrow> (case comprehension f xs of Inl e \<Rightarrow> Inl e | Inr ys \<Rightarrow> Inr (y # ys)))"

text \<open>
  The numpy arrays the featurizer meets: a scalar (dimension 0), a vector and a matrix
  (a list of rows of one length). The element type only needs a zero and an addition;
  no law of arithmetic is assumed of it, since the elements are floating-point numbers.

  \<^verbatim>\<open>np.array(rows)\<close> of an empty list is the empty vector; of rows of one length, a
  matrix; rows of different lengths are refused. \<^verbatim>\<open>len\<close> is the size of the first
  axis. \<^verbatim>\<open>np.zeros(dim)\<close> is the zero vector. \<^verbatim>\<open>np.sum(a, axis=0)\<close> adds the rows of a
  matrix columnwise and the entries of a vector. \<^verbatim>\<open>np.concatenate((a, b))\<close> joins two
  vectors, or two matrices with rows of one length, along the first axis.
\<close>

datatype 'a ndarray = Scalar 'a | Vector "'a list" | Matrix "'a list list"

definition np_array :: "'a list list \<Rightarrow> error + 'a ndarray" where
  "np_array rows =
     (case rows of
        [] \<Rightarrow> Inr (Vector [])
      | r # rs \<Rightarrow>
          if list_all (\<lambda>r'. length r' = length r) rs then Inr (Matrix rows)
          else Inl ValueError)"

fun len :: "'a ndarray \<Rightarrow> error + nat" where
  "len (Scalar x) = Inl TypeError"
| "len (Vector v) = Inr (length v)"
| "len (Matrix rows) = Inr (length rows)"

definition np_zeros :: "nat \<Rightarrow> ('a::zero) ndarray" where
  "np_zeros dim0 = Vector (replicate dim0 0)"

fun np_sum :: "('a::{zero,plus}) ndarray \<Rightarrow> error + 'a ndarray" where
  "np_sum (Scalar x) = Inl AxisError"
| "np_sum (Vector v) = Inr (Scalar (foldl (+) 0 v))"
| "np_sum (Matrix []) = Inr (Vector [])"
| "np_sum (Matrix (r # rs)) = Inr (Vector (foldl (\<lambda>acc row. map2 (+) acc row) r rs))"

fun np_concatenate :: "'a ndarray \<Rightarrow> 'a ndarray \<Rightarrow> error + 'a ndarray" where
  "np_concatenate (Vector a) (Vector b) = Inr (Vector (a @ b))"
| "np_concatenate (Matrix a) (Matrix b) =
     (case np_array (a @ b) of
        Inr (Matrix m) \<Rightarrow> Inr (Matrix m)
      | _ \<Rightarrow> Inl ValueError)"
| "np_concatenate _ _ = Inl ValueError"

subsection \<open>The featurizer\<close>

text \<open>
  \<^verbatim>\<open>
  def _get_tree_vecs(tree, lookup, np_func):
      allvecs = np.array([lookup[w] for w in tree.leaves() if w in lookup])
      if len(allvecs) == 0:
          dim = len(next(iter(lookup.values())))
          feats = np.zeros(dim)
      else:
          feats = np_func(allvecs, axis=0)
      return feats
  \<close>
  (An Isabelle name cannot start with an underscore.)
\<close>

definition get_tree_vecs ::
  "tree \<Rightarrow> (string \<times> ('a::zero) list) list \<Rightarrow> ('a ndarray \<Rightarrow> error + 'a ndarray)
     \<Rightarrow> error + 'a ndarray" where
  "get_tree_vecs tree lookup np_func =
     (case comprehension (dict_getitem lookup) [w \<leftarrow> leaves tree. dict_contains lookup w] of
        Inl e \<Rightarrow> Inl e
      | Inr rows \<Rightarrow>
          (case np_array rows of
             Inl e \<Rightarrow> Inl e
           | Inr allvecs \<Rightarrow>
               (case len allvecs of
                  Inl e \<Rightarrow> Inl e
                | Inr n \<Rightarrow>
                    if n = 0 then
                      (case next_iter (dict_values lookup) of
                         Inl e \<Rightarrow> Inl e
                       | Inr v \<Rightarrow> (let dim0 = length v in Inr (np_zeros dim0)))
                    else np_func allvecs)))"

text \<open>
  \<^verbatim>\<open>
  def glove_leaves_phi(t1, t2, np_func=np.sum):
      prem_vecs = _get_tree_vecs(t1, glove_lookup, np_func)
      hyp_vecs = _get_tree_vecs(t2, glove_lookup, np_func)
      return np.concatenate((prem_vecs, hyp_vecs))
  \<close>
  \<^verbatim>\<open>glove_lookup\<close> is a global read from the GloVe file by \<^verbatim>\<open>utils.glove2dict\<close>; the
  table is not part of the notebook, so it is the first parameter here.
\<close>

definition glove_leaves_phi ::
  "(string \<times> ('a::zero) list) list \<Rightarrow> tree \<Rightarrow> tree \<Rightarrow> ('a ndarray \<Rightarrow> error + 'a ndarray)
     \<Rightarrow> error + 'a ndarray" where
  "glove_leaves_phi glove_lookup t1 t2 np_func =
     (case get_tree_vecs t1 glove_lookup np_func of
        Inl e \<Rightarrow> Inl e
      | Inr prem_vecs \<Rightarrow>
          (case get_tree_vecs t2 glove_lookup np_func of
             Inl e \<Rightarrow> Inl e
           | Inr hyp_vecs \<Rightarrow> np_concatenate prem_vecs hyp_vecs))"

text \<open>
  A GloVe table of dimension \<open>dim0\<close>: at least one word, one vector per word, every
  vector of length \<open>dim0\<close>. (The source's name \<^verbatim>\<open>dim\<close> is a constant of the library,
  hence \<open>dim0\<close>.)
\<close>

definition glove_table :: "(string \<times> 'a list) list \<Rightarrow> nat \<Rightarrow> bool" where
  "glove_table lookup dim0 =
     (lookup \<noteq> [] \<and> distinct (dict_keys lookup) \<and>
      list_all (\<lambda>v. length v = dim0) (dict_values lookup))"

text \<open>
  The requirement the docstring puts on \<^verbatim>\<open>np_func\<close>: applied columnwise to a matrix
  with at least one row, it returns a vector of the rows' length.
\<close>

definition columnwise :: "('a ndarray \<Rightarrow> error + 'a ndarray) \<Rightarrow> nat \<Rightarrow> bool" where
  "columnwise np_func dim0 =
     (\<forall>rows. rows \<noteq> [] \<and> list_all (\<lambda>r. length r = dim0) rows \<longrightarrow>
        (\<exists>v. np_func (Matrix rows) = Inr (Vector v) \<and> length v = dim0))"

section \<open>Dataset paths\<close>

text \<open>
  \<^verbatim>\<open>os.path.join(a, b)\<close> on a POSIX system:
  \<^verbatim>\<open>
  if b.startswith('/'): path = b
  elif not path or path.endswith('/'): path += b
  else: path += '/' + b
  \<close>
\<close>

definition startswith_sep :: "string \<Rightarrow> bool" where
  "startswith_sep b = (case b of [] \<Rightarrow> False | c # _ \<Rightarrow> c = CHR ''/'')"

definition endswith_sep :: "string \<Rightarrow> bool" where
  "endswith_sep a = (case rev a of [] \<Rightarrow> False | c # _ \<Rightarrow> c = CHR ''/'')"

definition os_path_join :: "string \<Rightarrow> string \<Rightarrow> string" where
  "os_path_join a b =
     (if startswith_sep b then b
      else if a = [] \<or> endswith_sep a then a @ b
      else a @ ''/'' @ b)"

text \<open>
  \<^verbatim>\<open>
  glove_home = os.path.join('vsmdata', 'glove.6B')
  data_home = "nlidata"
  snli_home = os.path.join(data_home, "snli_1.0")
  multinli_home = os.path.join(data_home, "multinl_i.0")
  \<close>
\<close>

definition glove_home :: string where
  "glove_home = os_path_join ''vsmdata'' ''glove.6B''"

definition data_home :: string where
  "data_home = ''nlidata''"

definition snli_home :: string where
  "snli_home = os_path_join data_home ''snli_1.0''"

definition multinli_home :: string where
  "multinli_home = os_path_join data_home ''multinl_i.0''"

text \<open>
  The directory names under which the two corpora are distributed (the archives
  \<^verbatim>\<open>snli_1.0.zip\<close> and \<^verbatim>\<open>multinli_1.0.zip\<close> unpack to them).
\<close>

definition snli_dirname :: string where
  "snli_dirname = ''snli_1.0''"

definition multinli_dirname :: string where
  "multinli_dirname = ''multinli_1.0''"

section \<open>Logistic regression with preselected parameters\<close>

text \<open>
  The constructor arguments of \<^verbatim>\<open>sklearn.linear_model.LogisticRegression\<close> that the
  notebook sets.
\<close>

record logistic_regression =
  fit_intercept :: bool
  penalty :: string
  solver :: string
  lr_C :: real

text \<open>
  The library documents \<^verbatim>\<open>penalty\<close> as one of \<^verbatim>\<open>'l1'\<close>, \<^verbatim>\<open>'l2'\<close>, \<^verbatim>\<open>'elasticnet'\<close> and
  \<^verbatim>\<open>'none'\<close>, and \<^verbatim>\<open>solver\<close> as one of the five names below. \<^verbatim>\<open>fit\<close> starts with
  \<^verbatim>\<open>_check_solver(self.solver, self.penalty, self.dual)\<close>, which raises \<^verbatim>\<open>ValueError\<close>
  for a name outside these lists and for a solver that does not support the penalty,
  then refuses a penalty strength that is not positive.
\<close>

definition all_solvers :: "string list" where
  "all_solvers = [''liblinear'', ''newton-cg'', ''lbfgs'', ''sag'', ''saga'']"

definition all_penalties :: "string list" where
  "all_penalties = [''l1'', ''l2'', ''elasticnet'', ''none'']"

definition check_solver :: "string \<Rightarrow> string \<Rightarrow> error + string" where
  "check_solver slv pen =
     (if slv \<notin> set all_solvers then Inl ValueError
      else if pen \<notin> set all_penalties then Inl ValueError
      else if slv \<notin> set [''liblinear'', ''saga''] \<and> pen \<notin> set [''l2'', ''none'']
        then Inl ValueError
      else if pen = ''elasticnet'' \<and> slv \<noteq> ''saga'' then Inl ValueError
      else if slv = ''liblinear'' \<and> pen = ''none'' then Inl ValueError
      else Inr slv)"

text \<open>
  A feature matrix with its labels is well formed when it has at least one row and at
  least one column, one label per row, rows of one length, and at least two classes
  among the labels.
\<close>

definition well_formed :: "'x list list \<Rightarrow> 'y list \<Rightarrow> bool" where
  "well_formed X y =
     (X \<noteq> [] \<and> hd X \<noteq> [] \<and> length X = length y \<and>
      list_all (\<lambda>r. length r = length (hd X)) X \<and> 2 \<le> length (remdups y))"

text \<open>
  The trained model: the optimisation itself is numeric and is not modelled; the value
  records the configuration and the data the model was fitted on.
\<close>

datatype ('x, 'y) fitted = Fitted logistic_regression "'x list list" "'y list"

definition fit :: "logistic_regression \<Rightarrow> 'x list list \<Rightarrow> 'y list \<Rightarrow> error + ('x, 'y) fitted" where
  "fit mod0 X y =
     (case check_solver (solver mod0) (penalty mod0) of
        Inl e \<Rightarrow> Inl e
      | Inr _ \<Rightarrow>
          if lr_C mod0 \<le> 0 then Inl ValueError
          else if \<not> well_formed X y then Inl ValueError
          else Inr (Fitted mod0 X y))"

text \<open>
  \<^verbatim>\<open>
  def fit_maxent_classifier_with_preselected_params(X, y):
      mod = LogisticRegression(
          fit_intercept=True,
          penalty='ll',
          solver='saga',  ## Required for penalty='ll'.
          C=0.4)
      mod.fit(X, y)
      return mod
  \<close>
\<close>

definition preselected_params :: logistic_regression where
  "preselected_params =
     \<lparr>fit_intercept = True, penalty = ''ll'', solver = ''saga'', lr_C = 0.4\<rparr>"

definition fit_maxent_classifier_with_preselected_params ::
  "'x list list \<Rightarrow> 'y list \<Rightarrow> error + ('x, 'y) fitted" where
  "fit_maxent_classifier_with_preselected_params X y = fit preselected_params X y"

text \<open>
  The grid searched by \<^verbatim>\<open>fit_maxent_with_crossvalidation\<close>, from which the preselected
  parameters are taken:
  \<^verbatim>\<open>
  param_grid = {'C': [0.4, 0.6, 0.8, 1.0], 'penalty': ['l1','l2']}
  \<close>
\<close>

definition param_grid_C :: "real list" where
  "param_grid_C = [0.4, 0.6, 0.8, 1.0]"

definition param_grid_penalty :: "string list" where
  "param_grid_penalty = [''l1'', ''l2'']"

section \<open>Recurrent models\<close>

subsection \<open>Feature functions\<close>

text \<open>
  \<^verbatim>\<open>
  def sentence_rep_rnn_phi(t1, t2):
      return [t1.leaves(), t2.leaves()]

  def simple_chained_rep_rnn_phi(t1, t2):
      return t1.leaves() + t2.leaves()
  \<close>
\<close>

definition sentence_rep_rnn_phi :: "tree \<Rightarrow> tree \<Rightarrow> string list list" where
  "sentence_rep_rnn_phi t1 t2 = [leaves t1, leaves t2]"

definition simple_chained_rep_rnn_phi :: "tree \<Rightarrow> tree \<Rightarrow> string list" where
  "simple_chained_rep_rnn_phi t1 t2 = leaves t1 @ leaves t2"

subsection \<open>Vocabulary\<close>

text \<open>
  \<^verbatim>\<open>Counter.items()\<close> lists the entries in insertion order. \<^verbatim>\<open>Counter.most_common(n)\<close>
  is \<^verbatim>\<open>heapq.nlargest(n, self.items(), key=itemgetter(1))\<close>, that is
  \<^verbatim>\<open>sorted(self.items(), key=itemgetter(1), reverse=True)[:n]\<close> for \<open>n \<ge> 0\<close> and the empty
  list for a negative \<open>n\<close>. A sort with \<^verbatim>\<open>reverse=True\<close> reverses the list, sorts it
  stably and reverses the result, so entries of equal count keep their order.
\<close>

definition items :: "'a counter \<Rightarrow> ('a \<times> nat) list" where
  "items wc = wc"

definition sorted_reverse :: "('a \<Rightarrow> 'k::linorder) \<Rightarrow> 'a list \<Rightarrow> 'a list" where
  "sorted_reverse key xs = rev (sort_key key (rev xs))"

definition most_common :: "'a counter \<Rightarrow> int \<Rightarrow> ('a \<times> nat) list" where
  "most_common wc n = (if n < 0 then [] else take (nat n) (sorted_reverse snd (items wc)))"

text \<open>\<^verbatim>\<open>s.add(x)\<close> on a set, and \<^verbatim>\<open>sorted(s)\<close>.\<close>

definition set_add :: "'a list \<Rightarrow> 'a \<Rightarrow> 'a list" where
  "set_add s x = (if x \<in> set s then s else s @ [x])"

definition sorted_py :: "('a::linorder) list \<Rightarrow> 'a list" where
  "sorted_py xs = sort xs"

text \<open>
  \<^verbatim>\<open>
  def get_vocab(X, n_words=None):
      wc = Counter([w for pair in X for ex in pair for w in ex])
      wc = wc.most_common(n_words) if n_words else wc.items()
      vocab = {w for w, c in wc}
      vocab.add("$UNK")
      return sorted(vocab)
  \<close>
  \<^verbatim>\<open>n_words\<close> is \<^verbatim>\<open>None\<close> or an integer; \<^verbatim>\<open>None\<close> and \<open>0\<close> are false. Strings compare
  character by character, as lists of characters do. \<open>X\<close> is any dataset with three
  levels of iteration above the counted items: pairs of token lists for the
  sentence-encoding network, and for the chained network token lists whose words are
  iterated character by character.
\<close>

definition get_vocab :: "string list list list \<Rightarrow> int option \<Rightarrow> string list" where
  "get_vocab X n_words =
     (let wc = Counter [w. pair \<leftarrow> X, ex \<leftarrow> pair, w \<leftarrow> ex];
          wc' = (case n_words of
                   None \<Rightarrow> items wc
                 | Some n \<Rightarrow> if n \<noteq> 0 then most_common wc n else items wc);
          vocab = py_set [w. (w, c) \<leftarrow> wc'];
          vocab' = set_add vocab ''$UNK''
      in sorted_py vocab')"

subsection \<open>Feeding pairs to the sentence-encoding network\<close>

text \<open>
  \<^verbatim>\<open>zip(*X)\<close> passes the elements of \<open>X\<close> as the arguments of \<^verbatim>\<open>zip\<close>: the result has
  one tuple per position, up to the length of the shortest element, and is empty when
  \<open>X\<close> is. The assignment \<^verbatim>\<open>X_prem, X_hyp = ...\<close> raises \<^verbatim>\<open>ValueError\<close> unless the
  right-hand side yields exactly two values.
\<close>

definition zip_star :: "'a list list \<Rightarrow> 'a list list" where
  "zip_star X =
     (if X = [] then []
      else map (\<lambda>i. map (\<lambda>x. x ! i) X) [0..<min_list (map length X)])"

definition unpack2 :: "'a list \<Rightarrow> error + ('a \<times> 'a)" where
  "unpack2 xs = (case xs of [a, b] \<Rightarrow> Inr (a, b) | _ \<Rightarrow> Inl ValueError)"

subsection \<open>The graph of the sentence-encoding network\<close>

text \<open>
  \<^verbatim>\<open>build_graph\<close> builds a TensorFlow dataflow graph: every call of the framework
  creates a node and returns it. The nodes are terms. A placeholder and a cell are new
  objects at every call, so they carry the number of the object, taken from a counter
  of the instance. \<^verbatim>\<open>self.embedding\<close> (set by \<^verbatim>\<open>_define_embedding\<close>), \<^verbatim>\<open>weight_init\<close>,
  \<^verbatim>\<open>bias_init\<close> and \<^verbatim>\<open>_get_final_state\<close> belong to the base class
  \<^verbatim>\<open>TfRNNClassifier\<close>, which the notebook imports; they are kept as uninterpreted nodes
  of their arguments.
\<close>

datatype dtype = Int32 | Float32

datatype cell = Cell nat string nat string

datatype tensor =
    Placeholder nat dtype "nat option list"
  | Embedding
  | WeightInit nat nat string
  | BiasInit nat string
  | EmbeddingLookup tensor tensor
  | DynamicRNNState string cell tensor tensor
  | GetFinalState cell tensor
  | Concat tensor tensor nat
  | MatMul tensor tensor
  | Add tensor tensor

text \<open>The placeholders, the cells and the variable scopes a node is computed from.\<close>

fun placeholders :: "tensor \<Rightarrow> nat set" where
  "placeholders (Placeholder i _ _) = {i}"
| "placeholders Embedding = {}"
| "placeholders (WeightInit _ _ _) = {}"
| "placeholders (BiasInit _ _) = {}"
| "placeholders (EmbeddingLookup e t) = placeholders e \<union> placeholders t"
| "placeholders (DynamicRNNState _ _ x l) = placeholders x \<union> placeholders l"
| "placeholders (GetFinalState _ t) = placeholders t"
| "placeholders (Concat a b _) = placeholders a \<union> placeholders b"
| "placeholders (MatMul a b) = placeholders a \<union> placeholders b"
| "placeholders (Add a b) = placeholders a \<union> placeholders b"

fun cells :: "tensor \<Rightarrow> cell set" where
  "cells (Placeholder _ _ _) = {}"
| "cells Embedding = {}"
| "cells (WeightInit _ _ _) = {}"
| "cells (BiasInit _ _) = {}"
| "cells (EmbeddingLookup e t) = cells e \<union> cells t"
| "cells (DynamicRNNState _ c x l) = insert c (cells x \<union> cells l)"
| "cells (GetFinalState c t) = insert c (cells t)"
| "cells (Concat a b _) = cells a \<union> cells b"
| "cells (MatMul a b) = cells a \<union> cells b"
| "cells (Add a b) = cells a \<union> cells b"

fun scopes :: "tensor \<Rightarrow> string set" where
  "scopes (Placeholder _ _ _) = {}"
| "scopes Embedding = {}"
| "scopes (WeightInit _ _ _) = {}"
| "scopes (BiasInit _ _) = {}"
| "scopes (EmbeddingLookup e t) = scopes e \<union> scopes t"
| "scopes (DynamicRNNState sc _ x l) = insert sc (scopes x \<union> scopes l)"
| "scopes (GetFinalState _ t) = scopes t"
| "scopes (Concat a b _) = scopes a \<union> scopes b"
| "scopes (MatMul a b) = scopes a \<union> scopes b"
| "scopes (Add a b) = scopes a \<union> scopes b"

text \<open>
  An instance of \<^verbatim>\<open>TfNLISentenceRepRNN\<close>: the hyperparameters, the counter of graph
  objects, and the attributes the methods assign (\<open>None\<close> until assigned; reading an
  unassigned attribute raises \<^verbatim>\<open>AttributeError\<close>). The attribute \<^verbatim>\<open>premises\<close> is
  the field \<open>premises_ph\<close>, since \<open>premises\<close> is a keyword of Isabelle.
\<close>

record rnn =
  max_length :: nat
  hidden_dim :: nat
  output_dim :: nat
  cell_class :: string
  hidden_activation :: string
  fresh :: nat
  embedding :: "tensor option"
  premises_ph :: "tensor option"
  prem_lengths :: "tensor option"
  prem_feats :: "tensor option"
  prem_cell :: "cell option"
  prem_last :: "tensor option"
  hypotheses :: "tensor option"
  hyp_lengths :: "tensor option"
  hyp_feats :: "tensor option"
  hyp_cell :: "cell option"
  hyp_last :: "tensor option"
  outputs :: "tensor option"
  last :: "tensor option"
  last_dim :: "nat option"
  W_ly :: "tensor option"
  b_y :: "tensor option"
  model :: "tensor option"

definition define_embedding :: "rnn \<Rightarrow> rnn" where
  "define_embedding self = self\<lparr>embedding := Some Embedding\<rparr>"

text \<open>
  \<^verbatim>\<open>
  def build_premise_graph(self):
      self.premises = tf.placeholder(tf.int32, [None, self.max_length])
      self.prem_lengths = tf.placeholder(tf.int32, [None])
      self.prem_feats = tf.nn.embedding_lookup(self.embedding, self.premises)
      self.prem_cell = self.cell_class(
          self.hidden_dim, activation=self.hidden_activation)
      with tf.variable_scope('premise'):
          prem_outputs, prem_state = tf.nn.dynamic_rnn(
              self.prem_cell, self.prem_feats,
              dtype=tf.float32, sequence_length=self.prem_lengths)
      prem_last = self._get_final_state(self.prem_cell, prem_state)
      return prem_last
  \<close>
\<close>

definition build_premise_graph :: "rnn \<Rightarrow> error + (tensor \<times> rnn)" where
  "build_premise_graph self =
     (let premises' = Placeholder (fresh self) Int32 [None, Some (max_length self)];
          prem_lengths' = Placeholder (fresh self + 1) Int32 [None]
      in case embedding self of
           None \<Rightarrow> Inl AttributeError
         | Some emb \<Rightarrow>
             (let prem_feats' = EmbeddingLookup emb premises';
                  prem_cell' = Cell (fresh self + 2) (cell_class self) (hidden_dim self)
                                 (hidden_activation self);
                  prem_state = DynamicRNNState ''premise'' prem_cell' prem_feats' prem_lengths';
                  prem_last' = GetFinalState prem_cell' prem_state
              in Inr (prem_last',
                      self\<lparr>premises_ph := Some premises', prem_lengths := Some prem_lengths',
                           prem_feats := Some prem_feats', prem_cell := Some prem_cell',
                           fresh := fresh self + 3\<rparr>)))"

text \<open>
  \<^verbatim>\<open>
  def build_hypothesis_graph(self):
      self.hypotheses = tf.placeholder(tf.int32, [None, self.max_length])
      self.hyp_lengths = tf.placeholder(tf.int32, [None])
      self.hyp_feats = tf.nn.embedding_lookup(self.embedding, self.hypotheses)
      self.hyp_cell = self.cell_class(
          self.hidden_dim, activation=self.hidden_activation)
      with tf.variable_scope('hypothesis'):
          hyp_outputs, hyp_state = tf.nn.dynamic_rnn(
              self.hyp_cell, self.hyp_feats,
              dtype=tf.float32, sequence_length=self.hyp_lengths)
      hyp_last = self._get_final_state(self.hyp_cell, hyp_state)
      return hyp_last
  \<close>
\<close>

definition build_hypothesis_graph :: "rnn \<Rightarrow> error + (tensor \<times> rnn)" where
  "build_hypothesis_graph self =
     (let hypotheses' = Placeholder (fresh self) Int32 [None, Some (max_length self)];
          hyp_lengths' = Placeholder (fresh self + 1) Int32 [None]
      in case embedding self of
           None \<Rightarrow> Inl AttributeError
         | Some emb \<Rightarrow>
             (let hyp_feats' = EmbeddingLookup emb hypotheses';
                  hyp_cell' = Cell (fresh self + 2) (cell_class self) (hidden_dim self)
                                (hidden_activation self);
                  hyp_state = DynamicRNNState ''hypothesis'' hyp_cell' hyp_feats' hyp_lengths';
                  hyp_last' = GetFinalState hyp_cell' hyp_state
              in Inr (hyp_last',
                      self\<lparr>hypotheses := Some hypotheses', hyp_lengths := Some hyp_lengths',
                           hyp_feats := Some hyp_feats', hyp_cell := Some hyp_cell',
                           fresh := fresh self + 3\<rparr>)))"

text \<open>
  \<^verbatim>\<open>
  def build_graph(self):
      self._define_embedding()
      self.prem_last = self.build_premise_graph()
      self.hyp_last = self.build_hypothesis_graph()
      self.outputs = tf.placeholder(tf.float32, shape=[None, self.output_dim])
      self.last = tf.concat((self.prem_last, self.hyp_last), axis=1)
      self.last_dim = self.hidden_dim * 2
      self.W_ly = self.weight_init(self.last_dim, self.output_dim, 'W_ly')
      self.b_y = self.bias_init(self.output_dim, 'b_y')
      self.model = tf.matmul(self.last, self.W_ly) + self.b_y
  \<close>
\<close>

definition build_graph :: "rnn \<Rightarrow> error + rnn" where
  "build_graph self =
     (case build_premise_graph (define_embedding self) of
        Inl e \<Rightarrow> Inl e
      | Inr (pl, s1) \<Rightarrow>
          (case build_hypothesis_graph (s1\<lparr>prem_last := Some pl\<rparr>) of
             Inl e \<Rightarrow> Inl e
           | Inr (hl, s2) \<Rightarrow>
               (let s3 = s2\<lparr>hyp_last := Some hl\<rparr>;
                    outputs' = Placeholder (fresh s3) Float32 [None, Some (output_dim s3)];
                    last' = Concat pl hl 1;
                    last_dim' = hidden_dim s3 * 2;
                    W_ly' = WeightInit last_dim' (output_dim s3) ''W_ly'';
                    b_y' = BiasInit (output_dim s3) ''b_y'';
                    model' = Add (MatMul last' W_ly') b_y'
                in Inr (s3\<lparr>outputs := Some outputs', fresh := fresh s3 + 1,
                            last := Some last', last_dim := Some last_dim',
                            W_ly := Some W_ly', b_y := Some b_y', model := Some model'\<rparr>))))"

text \<open>
  \<^verbatim>\<open>
  def train_dict(self, X, y):
      X_prem, X_hyp = zip(*X)
      X_prem, prem_lengths = self._convert_X(X_prem)
      X_hyp, hyp_lengths = self._convert_X(X_hyp)
      return {self.premises: X_prem, self.hypotheses: X_hyp,
              self.prem_lengths: prem_lengths, self.hyp_lengths: hyp_lengths,
              self.outputs: y}

  def test_dict(self, X):
      X_prem, X_hyp = zip(*X)
      X_prem, prem_lengths = self._convert_X(X_prem)
      X_hyp, hyp_lengths = self._convert_X(X_hyp)
      return {self.premises: X_prem, self.hypotheses: X_hyp,
              self.prem_lengths: prem_lengths, self.hyp_lengths: hyp_lengths}
  \<close>
  \<^verbatim>\<open>_convert_X\<close> is a method of the base class and is a parameter here; it maps a
  sequence of token lists to an index matrix and the list of lengths.
\<close>

datatype ('m, 'l, 'y) feed = Tokens 'm | Lengths 'l | Labels 'y

definition test_dict ::
  "rnn \<Rightarrow> ('w list list \<Rightarrow> 'm \<times> 'l) \<Rightarrow> 'w list list list
     \<Rightarrow> error + (tensor \<times> ('m, 'l, 'y) feed) list" where
  "test_dict self convert_X X =
     (case unpack2 (zip_star X) of
        Inl e \<Rightarrow> Inl e
      | Inr (X_prem, X_hyp) \<Rightarrow>
          (let (X_prem', prem_lengths') = convert_X X_prem;
               (X_hyp', hyp_lengths') = convert_X X_hyp
           in case (premises_ph self, hypotheses self, prem_lengths self, hyp_lengths self) of
                (Some p, Some h, Some pl, Some hl) \<Rightarrow>
                  Inr [(p, Tokens X_prem'), (h, Tokens X_hyp'),
                       (pl, Lengths prem_lengths'), (hl, Lengths hyp_lengths')]
              | _ \<Rightarrow> Inl AttributeError))"

definition train_dict ::
  "rnn \<Rightarrow> ('w list list \<Rightarrow> 'm \<times> 'l) \<Rightarrow> 'w list list list \<Rightarrow> 'y
     \<Rightarrow> error + (tensor \<times> ('m, 'l, 'y) feed) list" where
  "train_dict self convert_X X y =
     (case unpack2 (zip_star X) of
        Inl e \<Rightarrow> Inl e
      | Inr (X_prem, X_hyp) \<Rightarrow>
          (let (X_prem', prem_lengths') = convert_X X_prem;
               (X_hyp', hyp_lengths') = convert_X X_hyp
           in case (premises_ph self, hypotheses self, prem_lengths self, hyp_lengths self,
                    outputs self) of
                (Some p, Some h, Some pl, Some hl, Some out) \<Rightarrow>
                  Inr [(p, Tokens X_prem'), (h, Tokens X_hyp'),
                       (pl, Lengths prem_lengths'), (hl, Lengths hyp_lengths'),
                       (out, Labels y)]
              | _ \<Rightarrow> Inl AttributeError))"

section \<open>Calls on the objects of the notebook\<close>

text \<open>
  The feature functions are called on objects: a call receives references to two tree
  objects, reads the global \<^verbatim>\<open>glove_lookup\<close>, builds new lists, sets, counters and arrays
  and returns a reference to its result. To say which objects a call changes, the
  functions are written once more with the objects of the interpreter made explicit.

  An item is what a list, a set or a counter holds: a string, a tuple of two items, or a
  reference to an object.
\<close>

datatype item = Str string | Tup item item | Ref nat

text \<open>
  The objects: \<^verbatim>\<open>None\<close> (also what an unused address holds), a tree with its subtrees, a
  list, a set (in iteration order), a counter, the GloVe table and a numpy array.
\<close>

datatype 'v obj =
    NoneObj
  | TreeObj tree
  | ListObj "item list"
  | SetObj "item list"
  | CounterObj "item counter"
  | DictObj "(string \<times> 'v list) list"
  | ArrayObj "'v ndarray"

text \<open>
  The state of the notebook: the object behind every address, the next unused address,
  and the module-level names with their values.
\<close>

record 'v notebook =
  objs :: "nat \<Rightarrow> 'v obj"
  next_addr :: nat
  globals :: "string \<Rightarrow> item option"

text \<open>
  A call takes the state and returns a value or an exception together with the state it
  leaves behind. \<open>bind\<close> sequences two calls and stops at an exception; \<open>for_each\<close> is a
  \<^verbatim>\<open>for\<close> loop.
\<close>

type_synonym ('s, 'a) call = "'s \<Rightarrow> (error + 'a) \<times> 's"



definition bind :: "('s, 'a) call \<Rightarrow> ('a \<Rightarrow> ('s, 'b) call) \<Rightarrow> ('s, 'b) call" where
  "bind m f = (\<lambda>s. case m s of (Inl e, s') \<Rightarrow> (Inl e, s') | (Inr x, s') \<Rightarrow> f x s')"


text \<open>
  Creating an object, reading the object behind a reference, replacing it (every method
  that changes an object in place ends in \<open>store\<close>), and reading or assigning a
  module-level name.
\<close>

definition new :: "'v obj \<Rightarrow> ('v notebook, nat) call" where
  "new ob = (\<lambda>s. (Inr (next_addr s),
                   s\<lparr>objs := (objs s)(next_addr s := ob), next_addr := next_addr s + 1\<rparr>))"




definition assign_global :: "string \<Rightarrow> item \<Rightarrow> ('v notebook, unit) call" where
  "assign_global name v = (\<lambda>s. (Inr (), s\<lparr>globals := (globals s)(name \<mapsto> v)\<rparr>))"


















text \<open>
  What a call leaves alone: \<open>frame s s'\<close> says that every object that existed in \<open>s\<close> and
  every module-level name is in \<open>s'\<close> what it was in \<open>s\<close>; \<open>s'\<close> may hold new objects.
  \<open>observe\<close> is what the caller sees of a result: the exception, or the object behind the
  returned reference; \<open>elements\<close> are the objects behind the items of a returned list.
\<close>

definition frame :: "'v notebook \<Rightarrow> 'v notebook \<Rightarrow> bool" where
  "frame s s' =
     (next_addr s \<le> next_addr s' \<and> globals s' = globals s \<and>
      (\<forall>a. a < next_addr s \<longrightarrow> objs s' a = objs s a))"





text \<open>
  The cells that set the global configuration: cell 6 assigns the four paths, cell 30
  binds \<^verbatim>\<open>glove_lookup\<close> to the table read from the GloVe file (a parameter here).
\<close>

definition cell_6 :: "('v notebook, unit) call" where
  "cell_6 =
     bind (assign_global ''glove_home'' (Str glove_home)) (\<lambda>_.
     bind (assign_global ''data_home'' (Str data_home)) (\<lambda>_.
     bind (assign_global ''snli_home'' (Str snli_home)) (\<lambda>_.
     assign_global ''multinli_home'' (Str multinli_home))))"

definition cell_30 :: "(string \<times> 'v list) list \<Rightarrow> ('v notebook, unit) call" where
  "cell_30 table = bind (new (DictObj table)) (\<lambda>g. assign_global ''glove_lookup'' (Ref g))"

section \<open>A sentence pair used in the examples\<close>


definition example_premise :: tree where
  "example_premise =
     Tree ''S'' [Sub (Tree ''NP'' [Word ''a'', Word ''dog'']),
                Sub (Tree ''VP'' [Word ''chased'', Sub (Tree ''NP'' [Word ''a'', Word ''cat''])])]"

definition example_hypothesis :: tree where
  "example_hypothesis =
     Tree ''S'' [Sub (Tree ''NP'' [Word ''a'', Word ''cat'']), Sub (Tree ''VP'' [Word ''ran''])]"


text \<open>
  The vectors of the leaves that the table knows, in the order of the leaves: what is
  left of a sentence once the words missing from the table are skipped.
\<close>

definition present_vecs :: "(string \<times> 'a list) list \<Rightarrow> tree \<Rightarrow> 'a list list" where
  "present_vecs lookup tree = List.map_filter (map_of lookup) (leaves tree)"

text \<open>A small table of dimension 2, and a sentence none of whose words it knows.\<close>

definition example_lookup :: "(string \<times> int list) list" where
  "example_lookup = [(''a'', [1, 2]), (''dog'', [3, 4]), (''ran'', [0, -1])]"

definition example_unknown :: tree where
  "example_unknown = Tree ''S'' [Word ''colourless'', Sub (Tree ''NP'' [Word ''ideas''])]"

text \<open>A dataset of two examples, each a pair of token lists, with its labels.\<close>

definition example_X :: "string list list list" where
  "example_X = [[[''a'', ''dog'', ''ran''], [''a'', ''dog'', ''moved'']],
                [[''the'', ''dog''], [''a'', ''cat'']]]"

definition example_y :: "string list" where
  "example_y = [''entailment'', ''neutral'']"

text \<open>
  An instance before \<^verbatim>\<open>build_graph\<close>, and a stand-in for \<^verbatim>\<open>_convert_X\<close> that keeps the
  tokens and lists the lengths.
\<close>

definition example_rnn :: rnn where
  "example_rnn =
     \<lparr>max_length = 5, hidden_dim = 50, output_dim = 3, cell_class = ''LSTMCell'',
      hidden_activation = ''tanh'', fresh = 0, embedding = None, premises_ph = None,
      prem_lengths = None, prem_feats = None, prem_cell = None, prem_last = None,
      hypotheses = None, hyp_lengths = None, hyp_feats = None, hyp_cell = None,
      hyp_last = None, outputs = None, last = None, last_dim = None, W_ly = None,
      b_y = None, model = None\<rparr>"

definition example_convert_X :: "string list list \<Rightarrow> string list list \<times> nat list" where
  "example_convert_X X = (X, map length X)"

text \<open>
  Two notebook states with the example trees and the small table, built in different
  orders, the second with the table's entries in reverse insertion order; and a table
  whose vectors have different lengths, with a sentence it knows no word of.
\<close>

definition empty_notebook :: "'v notebook" where
  "empty_notebook = \<lparr>objs = (\<lambda>_. NoneObj), next_addr = 0, globals = (\<lambda>_. None)\<rparr>"

definition example_notebook :: "int notebook" where
  "example_notebook =
     snd (bind cell_6 (\<lambda>_.
          bind (cell_30 example_lookup) (\<lambda>_.
          bind (new (TreeObj example_premise)) (\<lambda>_.
          new (TreeObj example_hypothesis)))) empty_notebook)"




section \<open>Properties of counters\<close>

lemma keys_counter_incr: "set (dict_keys (counter_incr x d)) = insert x (set (dict_keys d))"
  by (induction x d rule: counter_incr.induct) (auto simp: dict_keys_def)

lemma distinct_counter_incr:
  "distinct (dict_keys d) \<Longrightarrow> distinct (dict_keys (counter_incr x d))"
proof (induction d)
  case Nil
  then show ?case by (simp add: dict_keys_def)
next
  case (Cons kc d)
  obtain k c where kc: "kc = (k, c)" by (cases kc)
  from Cons.prems have dk: "k \<notin> set (dict_keys d)" and dd: "distinct (dict_keys d)"
    by (simp_all add: kc dict_keys_def)
  show ?case
  proof (cases "k = x")
    case True
    with Cons.prems show ?thesis by (simp add: kc dict_keys_def)
  next
    case False
    have "k \<notin> set (dict_keys (counter_incr x d))"
      using dk False by (simp add: keys_counter_incr)
    moreover have "distinct (dict_keys (counter_incr x d))"
      using Cons.IH dd .
    ultimately show ?thesis using False by (simp add: kc dict_keys_def)
  qed
qed

lemma dict_get_counter_incr:
  "dict_get (counter_incr x d) k =
     (if k = x then Some (case dict_get d x of None \<Rightarrow> 1 | Some c \<Rightarrow> c + 1)
      else dict_get d k)"
  by (induction x d rule: counter_incr.induct) (auto simp: dict_get_def)

lemma keys_fold_counter_incr:
  "set (dict_keys (fold counter_incr xs d)) = set xs \<union> set (dict_keys d)"
  by (induction xs arbitrary: d) (auto simp: keys_counter_incr)

lemma distinct_fold_counter_incr:
  "distinct (dict_keys d) \<Longrightarrow> distinct (dict_keys (fold counter_incr xs d))"
  by (induction xs arbitrary: d) (auto simp: distinct_counter_incr)

lemma dict_get_fold_counter_incr:
  "dict_get (fold counter_incr xs d) k =
     (case dict_get d k of
        None \<Rightarrow> if k \<in> set xs then Some (count_list xs k) else None
      | Some c \<Rightarrow> Some (c + count_list xs k))"
proof (induction xs arbitrary: d)
  case Nil
  show ?case by (simp split: option.split)
next
  case (Cons x xs)
  show ?case
    by (auto simp: Cons.IH dict_get_counter_incr count_list_0_iff split: option.split)
qed

lemma keys_Counter: "set (dict_keys (Counter xs)) = set xs"
proof -
  have "set (dict_keys ([] :: 'a counter)) = {}" by (simp add: dict_keys_def)
  then show ?thesis by (simp add: Counter_def keys_fold_counter_incr)
qed

lemma distinct_keys_Counter: "distinct (dict_keys (Counter xs))"
proof -
  have "distinct (dict_keys ([] :: 'a counter))" by (simp add: dict_keys_def)
  then show ?thesis unfolding Counter_def by (rule distinct_fold_counter_incr)
qed

lemma dict_get_Counter:
  "dict_get (Counter xs) k = (if k \<in> set xs then Some (count_list xs k) else None)"
proof -
  have "dict_get ([] :: 'a counter) k = None" by (simp add: dict_get_def)
  then show ?thesis by (simp add: Counter_def dict_get_fold_counter_incr)
qed

lemma set_itertools_product: "set (product xs ys) = set xs \<times> set ys"
  by (auto simp: product_def)

lemma count_list_map_Pair:
  "count_list (map (\<lambda>y. (x, y)) ys) (a, b) = (if x = a then count_list ys b else 0)"
  by (induction ys) auto

lemma count_list_itertools_product:
  "count_list (product xs ys) (a, b) = count_list xs a * count_list ys b"
  by (induction xs) (auto simp: product_def count_list_map_Pair)

lemma pair_comprehension_id: "[(w1, w2). (w1, w2) \<leftarrow> ps] = ps"
  by (induction ps) auto

lemma count_list_distinct:
  "distinct xs \<Longrightarrow> count_list xs x = (if x \<in> set xs then 1 else 0)"
  by (induction xs) auto

lemma leaves_example_premise: "leaves example_premise = [''a'', ''dog'', ''chased'', ''a'', ''cat'']"
  by (simp add: example_premise_def)

lemma leaves_example_hypothesis: "leaves example_hypothesis = [''a'', ''cat'', ''ran'']"
  by (simp add: example_hypothesis_def)


section \<open>The cross-product features\<close>

text \<open>
  Claim C1. For every pair of trees, \<open>word_cross_product_phi t1 t2\<close> is a dictionary whose
  keys are exactly the pairs of a leaf of \<open>t1\<close> and a leaf of \<open>t2\<close>, and the count of a
  pair \<open>(w1, w2)\<close> is the number of occurrences of \<open>w1\<close> among the leaves of \<open>t1\<close> times
  the number of occurrences of \<open>w2\<close> among the leaves of \<open>t2\<close>; a pair outside the
  product is not a key.
\<close>

theorem word_cross_product_phi_counts:
  "set (dict_keys (word_cross_product_phi t1 t2)) = set (leaves t1) \<times> set (leaves t2)
   \<and> distinct (dict_keys (word_cross_product_phi t1 t2))
   \<and> dict_get (word_cross_product_phi t1 t2) (w1, w2) =
       (if w1 \<in> set (leaves t1) \<and> w2 \<in> set (leaves t2)
        then Some (count_list (leaves t1) w1 * count_list (leaves t2) w2) else None)"
proof -
  let ?ps = "product (leaves t1) (leaves t2)"
  have phi: "word_cross_product_phi t1 t2 = Counter ?ps"
    by (simp add: word_cross_product_phi_def pair_comprehension_id)
  have "set (dict_keys (Counter ?ps)) = set (leaves t1) \<times> set (leaves t2)"
    by (simp add: keys_Counter set_itertools_product)
  moreover have "distinct (dict_keys (Counter ?ps))"
    by (rule distinct_keys_Counter)
  moreover have "dict_get (Counter ?ps) (w1, w2) =
       (if w1 \<in> set (leaves t1) \<and> w2 \<in> set (leaves t2)
        then Some (count_list (leaves t1) w1 * count_list (leaves t2) w2) else None)"
    by (simp add: dict_get_Counter set_itertools_product count_list_itertools_product)
  ultimately show ?thesis by (simp only: phi) 
qed

theorem word_cross_product_phi_counts_witness:
  "dict_get (word_cross_product_phi example_premise example_hypothesis) (''a'', ''a'') = Some 2
   \<and> dict_get (word_cross_product_phi example_premise example_hypothesis) (''dog'', ''ran'') = Some 1
   \<and> dict_get (word_cross_product_phi example_premise example_hypothesis) (''ran'', ''dog'') = None"
  using word_cross_product_phi_counts [of example_premise example_hypothesis "''a''" "''a''"]
        word_cross_product_phi_counts [of example_premise example_hypothesis "''dog''" "''ran''"]
        word_cross_product_phi_counts [of example_premise example_hypothesis "''ran''" "''dog''"]
  by (simp add: leaves_example_premise leaves_example_hypothesis)

section \<open>The overlap features\<close>

text \<open>
  Claim C2. For every pair of trees, the keys of \<open>word_overlap_phi t1 t2\<close> are exactly the
  words that occur among the leaves of both trees, and every key has the count 1,
  however often the word occurs in either tree.
\<close>

theorem word_overlap_phi_keys_counts:
  "set (dict_keys (word_overlap_phi t1 t2)) = set (leaves t1) \<inter> set (leaves t2)
   \<and> distinct (dict_keys (word_overlap_phi t1 t2))
   \<and> dict_get (word_overlap_phi t1 t2) w =
       (if w \<in> set (leaves t1) \<and> w \<in> set (leaves t2) then Some 1 else None)"
proof -
  let ?ov = "py_set [w1 \<leftarrow> leaves t1. w1 \<in> set (leaves t2)]"
  have phi: "word_overlap_phi t1 t2 = Counter ?ov"
    by (simp add: word_overlap_phi_def)
  have d: "distinct ?ov" by (simp add: py_set_def)
  have s: "set ?ov = set (leaves t1) \<inter> set (leaves t2)"
    by (auto simp: py_set_def)
  have c: "count_list ?ov w = (if w \<in> set ?ov then 1 else 0)"
    using d by (simp add: count_list_distinct)
  have "dict_get (Counter ?ov) w =
       (if w \<in> set (leaves t1) \<and> w \<in> set (leaves t2) then Some 1 else None)"
    unfolding dict_get_Counter c using s by simp
  moreover have "set (dict_keys (Counter ?ov)) = set (leaves t1) \<inter> set (leaves t2)"
    by (simp only: keys_Counter s)
  moreover have "distinct (dict_keys (Counter ?ov))"
    by (rule distinct_keys_Counter)
  ultimately show ?thesis by (simp only: phi)
qed

theorem word_overlap_phi_keys_counts_witness:
  "dict_get (word_overlap_phi example_premise example_hypothesis) ''a'' = Some 1
   \<and> dict_get (word_overlap_phi example_premise example_hypothesis) ''cat'' = Some 1
   \<and> dict_get (word_overlap_phi example_premise example_hypothesis) ''dog'' = None"
  using word_overlap_phi_keys_counts [of example_premise example_hypothesis "''a''"]
        word_overlap_phi_keys_counts [of example_premise example_hypothesis "''cat''"]
        word_overlap_phi_keys_counts [of example_premise example_hypothesis "''dog''"]
  by (simp add: leaves_example_premise leaves_example_hypothesis)

section \<open>The chained featurizer\<close>

text \<open>
  Claim C5. For every pair of trees, \<open>simple_chained_rep_rnn_phi t1 t2\<close> is one sequence:
  the leaves of the premise followed by the leaves of the hypothesis, in order. Its first
  \<open>length (leaves t1)\<close> tokens are the premise and the rest is the hypothesis.
\<close>

theorem simple_chained_rep_rnn_phi_concat:
  "simple_chained_rep_rnn_phi t1 t2 = leaves t1 @ leaves t2
   \<and> take (length (leaves t1)) (simple_chained_rep_rnn_phi t1 t2) = leaves t1
   \<and> drop (length (leaves t1)) (simple_chained_rep_rnn_phi t1 t2) = leaves t2
   \<and> length (simple_chained_rep_rnn_phi t1 t2) = length (leaves t1) + length (leaves t2)"
  by (simp add: simple_chained_rep_rnn_phi_def)

section \<open>The dense featurizer\<close>

lemma dict_contains_iff: "dict_contains d k \<longleftrightarrow> map_of d k \<noteq> None"
  by (simp add: dict_contains_def dict_keys_def map_of_eq_None_iff)

lemma comprehension_getitem:
  "comprehension (dict_getitem lookup) [w \<leftarrow> ws. dict_contains lookup w]
     = Inr (List.map_filter (map_of lookup) ws)"
proof (induction ws)
  case Nil
  show ?case by simp
next
  case (Cons w ws)
  show ?case
  proof (cases "map_of lookup w")
    case None
    then show ?thesis using Cons.IH
      by (simp add: dict_contains_iff)
  next
    case (Some v)
    then show ?thesis using Cons.IH
      by (simp add: dict_contains_iff dict_getitem_def)
  qed
qed

lemma present_vecs_lengths:
  assumes "list_all (\<lambda>v. length v = d) (dict_values lookup)"
  shows "list_all (\<lambda>v. length v = d) (present_vecs lookup tree)"
proof -
  have "length v = d" if "v \<in> set (present_vecs lookup tree)" for v
  proof -
    from that obtain w where "map_of lookup w = Some v"
      by (auto simp: present_vecs_def List.map_filter_def)
    then have "(w, v) \<in> set lookup" by (rule map_of_SomeD)
    then have "v \<in> set (dict_values lookup)" by (force simp: dict_values_def)
    with assms show ?thesis by (simp add: list_all_iff)
  qed
  then show ?thesis by (simp add: list_all_iff)
qed

lemma np_array_rectangular:
  "rows \<noteq> [] \<Longrightarrow> list_all (\<lambda>v. length v = d) rows \<Longrightarrow> np_array rows = Inr (Matrix rows)"
  by (cases rows) (auto simp: np_array_def list_all_iff)

lemma get_tree_vecs_cases:
  assumes "glove_table lookup d"
  shows "get_tree_vecs tree lookup np_func =
           (if present_vecs lookup tree = [] then Inr (Vector (replicate d 0))
            else np_func (Matrix (present_vecs lookup tree)))"
proof (cases "present_vecs lookup tree = []")
  case True
  from assms obtain k v rest where l: "lookup = (k, v) # rest"
    by (cases lookup) (auto simp: glove_table_def)
  with assms have "length v = d"
    by (simp add: glove_table_def dict_values_def)
  with True l show ?thesis
    by (simp add: get_tree_vecs_def comprehension_getitem present_vecs_def np_array_def
        next_iter_def dict_values_def np_zeros_def)
next
  case False
  from assms have "list_all (\<lambda>v. length v = d) (present_vecs lookup tree)"
    by (simp add: glove_table_def present_vecs_lengths)
  with False have "np_array (present_vecs lookup tree) = Inr (Matrix (present_vecs lookup tree))"
    by (rule np_array_rectangular)
  with False show ?thesis
    by (simp add: get_tree_vecs_def comprehension_getitem present_vecs_def)
qed

lemma length_foldl_map2:
  "list_all (\<lambda>v. length v = length r) rs \<Longrightarrow>
     length (foldl (\<lambda>acc row. map2 f acc row) r rs) = length r"
  by (induction rs arbitrary: r) auto

lemma columnwise_np_sum: "columnwise np_sum d"
proof -
  have "\<exists>v. np_sum (Matrix rows) = Inr (Vector v) \<and> length v = d"
    if "rows \<noteq> []" "list_all (\<lambda>r. length r = d) rows" for rows :: "'a list list"
  proof -
    from that obtain r rs where rows: "rows = r # rs" by (cases rows) auto
    with that have "length r = d" "list_all (\<lambda>v. length v = length r) rs" by auto
    then show ?thesis by (simp add: rows length_foldl_map2)
  qed
  then show ?thesis by (simp add: columnwise_def)
qed

text \<open>
  Claim C3. For a GloVe table (at least one word, every vector of the table's dimension)
  and a combination function that works columnwise, the words of a sentence that are
  missing from the table are skipped without an error: the tree is represented by the
  combination of the vectors of the words the table knows, and by the all-zeros vector
  of the table's dimension when it knows none of them. Consequently \<open>glove_leaves_phi\<close>
  raises nothing for any pair of trees and returns the premise vector followed by the
  hypothesis vector.
\<close>

theorem glove_leaves_phi_defined:
  assumes "glove_table lookup d" and "columnwise np_func d"
  shows "get_tree_vecs tree lookup np_func =
           (if present_vecs lookup tree = [] then Inr (Vector (replicate d 0))
            else np_func (Matrix (present_vecs lookup tree)))
         \<and> (\<exists>p h. get_tree_vecs t1 lookup np_func = Inr (Vector p) \<and> length p = d
                \<and> get_tree_vecs t2 lookup np_func = Inr (Vector h) \<and> length h = d
                \<and> glove_leaves_phi lookup t1 t2 np_func = Inr (Vector (p @ h)))"
proof -
  have vec: "\<exists>v. get_tree_vecs t lookup np_func = Inr (Vector v) \<and> length v = d" for t
  proof (cases "present_vecs lookup t = []")
    case True
    then show ?thesis by (simp add: get_tree_vecs_cases [OF assms(1)])
  next
    case False
    moreover from assms(1) have "list_all (\<lambda>v. length v = d) (present_vecs lookup t)"
      by (simp add: glove_table_def present_vecs_lengths)
    ultimately have "\<exists>v. np_func (Matrix (present_vecs lookup t)) = Inr (Vector v) \<and> length v = d"
      using assms(2) by (simp add: columnwise_def)
    with False show ?thesis by (simp add: get_tree_vecs_cases [OF assms(1)])
  qed
  from vec [of t1] obtain p where p: "get_tree_vecs t1 lookup np_func = Inr (Vector p)" "length p = d"
    by blast
  from vec [of t2] obtain h where h: "get_tree_vecs t2 lookup np_func = Inr (Vector h)" "length h = d"
    by blast
  have "glove_leaves_phi lookup t1 t2 np_func = Inr (Vector (p @ h))"
    by (simp add: glove_leaves_phi_def p h)
  with p h get_tree_vecs_cases [OF assms(1)] show ?thesis by blast
qed

lemma glove_table_example: "glove_table example_lookup 2"
  by (simp add: glove_table_def example_lookup_def dict_keys_def dict_values_def)

theorem glove_leaves_phi_defined_witness:
  "glove_table example_lookup 2 \<and> columnwise (np_sum :: int ndarray \<Rightarrow> _) 2
   \<and> get_tree_vecs example_unknown example_lookup np_sum = Inr (Vector [0, 0])
   \<and> get_tree_vecs example_premise example_lookup np_sum = Inr (Vector [5, 8])
   \<and> glove_leaves_phi example_lookup example_premise example_hypothesis np_sum
        = Inr (Vector [5, 8, 1, 1])"
proof -
  have pv1: "present_vecs example_lookup example_unknown = []"
    by (simp add: present_vecs_def example_lookup_def example_unknown_def)
  have pv2: "present_vecs example_lookup example_premise = [[1, 2], [3, 4], [1, 2]]"
    by (simp add: present_vecs_def example_lookup_def example_premise_def)
  have pv3: "present_vecs example_lookup example_hypothesis = [[1, 2], [0, -1]]"
    by (simp add: present_vecs_def example_lookup_def example_hypothesis_def)
  note main = glove_leaves_phi_defined [OF glove_table_example columnwise_np_sum]
  have u: "get_tree_vecs example_unknown example_lookup np_sum = Inr (Vector [0, 0])"
    using main [of example_unknown example_premise example_hypothesis]
    by (simp add: pv1 numeral_2_eq_2)
  have p: "get_tree_vecs example_premise example_lookup np_sum = Inr (Vector [5, 8])"
    using main [of example_premise example_premise example_hypothesis]
    by (simp add: pv2)
  have h: "get_tree_vecs example_hypothesis example_lookup np_sum = Inr (Vector [1, 1])"
    using main [of example_hypothesis example_premise example_hypothesis]
    by (simp add: pv3)
  have "glove_leaves_phi example_lookup example_premise example_hypothesis np_sum
        = Inr (Vector [5, 8, 1, 1])"
    using main [of example_premise example_premise example_hypothesis]
    by (auto simp: p h)
  with u p glove_table_example columnwise_np_sum show ?thesis by blast
qed

text \<open>
  The table is read from a file; were the file empty, there would be no first vector to
  take the dimension from.
\<close>

lemma glove_leaves_phi_empty_lookup:
  "glove_leaves_phi [] t1 t2 np_func = Inl StopIteration"
  by (simp add: glove_leaves_phi_def get_tree_vecs_def comprehension_getitem
      np_array_def next_iter_def dict_values_def List.map_filter_def)

section \<open>The preselected logistic regression\<close>

text \<open>
  Claim C4. The function should configure the regression with an accepted penalty and
  return the fitted model. The penalty it passes, \<^verbatim>\<open>'ll'\<close>, is none of the accepted
  penalties and none of the penalties of the grid the parameters were selected from, so
  \<open>fit\<close> refuses the configuration for every matrix and label list.
\<close>

theorem fit_maxent_classifier_with_preselected_params_raises:
  "penalty preselected_params \<notin> set all_penalties
   \<and> penalty preselected_params \<notin> set param_grid_penalty
   \<and> fit_maxent_classifier_with_preselected_params X y = Inl ValueError"
  by (simp add: fit_maxent_classifier_with_preselected_params_def fit_def check_solver_def
      preselected_params_def all_penalties_def all_solvers_def param_grid_penalty_def)

lemma fit_with_l1_penalty:
  "well_formed X y \<Longrightarrow>
     fit (preselected_params\<lparr>penalty := ''l1''\<rparr>) X y
       = Inr (Fitted (preselected_params\<lparr>penalty := ''l1''\<rparr>) X y)"
  by (simp add: fit_def check_solver_def preselected_params_def all_penalties_def
      all_solvers_def)

section \<open>The dataset paths\<close>

text \<open>
  Claim C8. \<open>multinli_home\<close> should be the data home joined with the directory name of
  MultiNLI 1.0, as \<open>snli_home\<close> is the data home joined with the directory name of SNLI
  1.0. The notebook joins the data home with \<^verbatim>\<open>multinl_i.0\<close> instead, so the path it
  configures is not the path of the dataset.
\<close>

theorem multinli_home_misspelt:
  "multinli_home = ''nlidata/multinl_i.0''
   \<and> multinli_home \<noteq> os_path_join data_home multinli_dirname
   \<and> snli_home = os_path_join data_home snli_dirname"
  by (simp add: multinli_home_def snli_home_def data_home_def multinli_dirname_def
      snli_dirname_def os_path_join_def startswith_sep_def endswith_sep_def)

lemma multinli_home_intended:
  "os_path_join data_home multinli_dirname = ''nlidata/multinli_1.0''"
  by (simp add: data_home_def multinli_dirname_def os_path_join_def startswith_sep_def
      endswith_sep_def)

section \<open>The vocabulary\<close>

lemma fst_comprehension: "[w. (w, c) \<leftarrow> wc] = map fst wc"
  by (induction wc) auto

lemma set_add_member: "x \<in> set (set_add s x)"
  by (simp add: set_add_def)

lemma distinct_set_add: "distinct s \<Longrightarrow> distinct (set_add s x)"
  by (simp add: set_add_def)

lemma length_set_add: "length (set_add s x) \<le> length s + 1"
  by (simp add: set_add_def)

lemma length_py_set: "length (py_set xs) \<le> length xs"
  by (simp add: py_set_def)

lemma length_most_common: "0 \<le> n \<Longrightarrow> length (most_common wc n) \<le> nat n"
  by (simp add: most_common_def)

lemma get_vocab_unfold:
  "get_vocab X n_words =
     sort (set_add (py_set (map fst
       (case n_words of
          None \<Rightarrow> items (Counter (concat (map concat X)))
        | Some n \<Rightarrow>
            if n \<noteq> 0 then most_common (Counter (concat (map concat X))) n
            else items (Counter (concat (map concat X)))))) ''$UNK'')"
  by (simp add: get_vocab_def Let_def sorted_py_def fst_comprehension del: map_map)

text \<open>
  Claim C9. For every dataset and every \<open>n_words\<close>, the vocabulary contains the token
  \<^verbatim>\<open>$UNK\<close> and is strictly ascending (sorted, without duplicates); when \<open>n_words\<close> is a
  positive integer it has at most \<open>n_words + 1\<close> entries.
\<close>

theorem get_vocab_invariants:
  "''$UNK'' \<in> set (get_vocab X n_words)
   \<and> sorted_wrt (<) (get_vocab X n_words)
   \<and> (\<forall>n. n_words = Some n \<and> 0 < n \<longrightarrow> length (get_vocab X n_words) \<le> nat n + 1)"
proof -
  let ?wc = "Counter (concat (map concat X))"
  let ?sel = "case n_words of None \<Rightarrow> items ?wc
               | Some n \<Rightarrow> if n \<noteq> 0 then most_common ?wc n else items ?wc"
  let ?vocab = "set_add (py_set (map fst ?sel)) ''$UNK''"
  have gv: "get_vocab X n_words = sort ?vocab"
    by (rule get_vocab_unfold)
  have unk: "''$UNK'' \<in> set (sort ?vocab)"
    by (simp add: set_add_member)
  have "distinct ?vocab"
    by (rule distinct_set_add) (simp add: py_set_def)
  then have strict: "sorted_wrt (<) (sort ?vocab)"
    by (simp add: strict_sorted_iff)
  have bound: "length (sort ?vocab) \<le> nat n + 1" if n: "n_words = Some n" "0 < n" for n
  proof -
    have "length ?vocab \<le> length (py_set (map fst ?sel)) + 1"
      by (rule length_set_add)
    also have "length (py_set (map fst ?sel)) \<le> length (map fst ?sel)"
      by (rule length_py_set)
    also have "length (map fst ?sel) \<le> nat n"
      using n length_most_common [of n ?wc] by simp
    finally show ?thesis by simp
  qed
  show ?thesis unfolding gv using unk strict bound by blast
qed

theorem get_vocab_invariants_witness:
  "get_vocab example_X (Some 2) = [''$UNK'', ''a'', ''dog'']
   \<and> ''$UNK'' \<in> set (get_vocab example_X (Some 2))
   \<and> sorted_wrt (<) (get_vocab example_X (Some 2))
   \<and> length (get_vocab example_X (Some 2)) \<le> 3"
proof -
  have v: "get_vocab example_X (Some 2) = [''$UNK'', ''a'', ''dog'']"
    by code_simp
  from get_vocab_invariants [of example_X "Some 2"] show ?thesis
    unfolding v by simp
qed

section \<open>The sentence-encoding network\<close>

lemma build_graph_attributes:
  "\<exists>g. build_graph self = Inr g
     \<and> premises_ph g = Some (Placeholder (fresh self) Int32 [None, Some (max_length self)])
     \<and> prem_lengths g = Some (Placeholder (fresh self + 1) Int32 [None])
     \<and> prem_feats g = Some (EmbeddingLookup Embedding
          (Placeholder (fresh self) Int32 [None, Some (max_length self)]))
     \<and> prem_cell g = Some (Cell (fresh self + 2) (cell_class self) (hidden_dim self)
          (hidden_activation self))
     \<and> prem_last g = Some (GetFinalState
          (Cell (fresh self + 2) (cell_class self) (hidden_dim self) (hidden_activation self))
          (DynamicRNNState ''premise''
             (Cell (fresh self + 2) (cell_class self) (hidden_dim self) (hidden_activation self))
             (EmbeddingLookup Embedding
                (Placeholder (fresh self) Int32 [None, Some (max_length self)]))
             (Placeholder (fresh self + 1) Int32 [None])))
     \<and> hypotheses g = Some (Placeholder (fresh self + 3) Int32 [None, Some (max_length self)])
     \<and> hyp_lengths g = Some (Placeholder (fresh self + 4) Int32 [None])
     \<and> hyp_feats g = Some (EmbeddingLookup Embedding
          (Placeholder (fresh self + 3) Int32 [None, Some (max_length self)]))
     \<and> hyp_cell g = Some (Cell (fresh self + 5) (cell_class self) (hidden_dim self)
          (hidden_activation self))
     \<and> hyp_last g = Some (GetFinalState
          (Cell (fresh self + 5) (cell_class self) (hidden_dim self) (hidden_activation self))
          (DynamicRNNState ''hypothesis''
             (Cell (fresh self + 5) (cell_class self) (hidden_dim self) (hidden_activation self))
             (EmbeddingLookup Embedding
                (Placeholder (fresh self + 3) Int32 [None, Some (max_length self)]))
             (Placeholder (fresh self + 4) Int32 [None])))
     \<and> outputs g = Some (Placeholder (fresh self + 6) Float32 [None, Some (output_dim self)])
     \<and> last g = Some (Concat (the (prem_last g)) (the (hyp_last g)) 1)
     \<and> last_dim g = Some (hidden_dim self * 2)
     \<and> W_ly g = Some (WeightInit (hidden_dim self * 2) (output_dim self) ''W_ly'')
     \<and> b_y g = Some (BiasInit (output_dim self) ''b_y'')
     \<and> model g = Some (Add (MatMul (the (last g)) (the (W_ly g))) (the (b_y g)))"
  by (simp add: build_graph_def build_premise_graph_def build_hypothesis_graph_def
      define_embedding_def Let_def)

text \<open>
  Claim C6. \<open>sentence_rep_rnn_phi\<close> returns the two leaf lists as a pair, unmixed.
  \<open>build_graph\<close> always succeeds and builds two encoders. The premise encoder is the
  final state of a recurrent network, under the variable scope \<^verbatim>\<open>premise\<close> and with a
  cell of its own, run over the embeddings of the premise placeholder with the premise
  lengths; the hypothesis encoder is the same construction under the scope
  \<^verbatim>\<open>hypothesis\<close>, with another cell, over the hypothesis placeholder and lengths. The
  four placeholders are four different inputs, so neither encoder reads the other
  sentence. The two final states meet in the concatenation \<open>last\<close>, and the output layer
  \<open>model\<close> is that concatenation times the weights plus the bias.
\<close>

theorem sentence_encoding_separate:
  "sentence_rep_rnn_phi t1 t2 = [leaves t1, leaves t2]
   \<and> (\<exists>g p pl pc plast h hl hc hlast W b.
        build_graph self = Inr g
        \<and> p = Placeholder (fresh self) Int32 [None, Some (max_length self)]
        \<and> pl = Placeholder (fresh self + 1) Int32 [None]
        \<and> pc = Cell (fresh self + 2) (cell_class self) (hidden_dim self) (hidden_activation self)
        \<and> h = Placeholder (fresh self + 3) Int32 [None, Some (max_length self)]
        \<and> hl = Placeholder (fresh self + 4) Int32 [None]
        \<and> hc = Cell (fresh self + 5) (cell_class self) (hidden_dim self) (hidden_activation self)
        \<and> plast = GetFinalState pc (DynamicRNNState ''premise'' pc (EmbeddingLookup Embedding p) pl)
        \<and> hlast = GetFinalState hc (DynamicRNNState ''hypothesis'' hc (EmbeddingLookup Embedding h) hl)
        \<and> W = WeightInit (hidden_dim self * 2) (output_dim self) ''W_ly''
        \<and> b = BiasInit (output_dim self) ''b_y''
        \<and> premises_ph g = Some p \<and> prem_lengths g = Some pl
        \<and> prem_feats g = Some (EmbeddingLookup Embedding p)
        \<and> prem_cell g = Some pc \<and> prem_last g = Some plast
        \<and> hypotheses g = Some h \<and> hyp_lengths g = Some hl
        \<and> hyp_feats g = Some (EmbeddingLookup Embedding h)
        \<and> hyp_cell g = Some hc \<and> hyp_last g = Some hlast
        \<and> outputs g = Some (Placeholder (fresh self + 6) Float32 [None, Some (output_dim self)])
        \<and> last g = Some (Concat plast hlast 1)
        \<and> last_dim g = Some (hidden_dim self * 2)
        \<and> W_ly g = Some W \<and> b_y g = Some b
        \<and> model g = Some (Add (MatMul (Concat plast hlast 1) W) b)
        \<and> placeholders plast = {fresh self, fresh self + 1}
        \<and> placeholders hlast = {fresh self + 3, fresh self + 4}
        \<and> placeholders plast \<inter> placeholders hlast = {}
        \<and> cells plast = {pc} \<and> cells hlast = {hc} \<and> pc \<noteq> hc
        \<and> scopes plast = {''premise''} \<and> scopes hlast = {''hypothesis''}
        \<and> placeholders (Add (MatMul (Concat plast hlast 1) W) b)
              = {fresh self, fresh self + 1, fresh self + 3, fresh self + 4})"
proof -
  have phi: "sentence_rep_rnn_phi t1 t2 = [leaves t1, leaves t2]"
    by (simp add: sentence_rep_rnn_phi_def)
  obtain g where g: "build_graph self = Inr g"
    and a: "premises_ph g = Some (Placeholder (fresh self) Int32 [None, Some (max_length self)])"
      "prem_lengths g = Some (Placeholder (fresh self + 1) Int32 [None])"
      "prem_feats g = Some (EmbeddingLookup Embedding
          (Placeholder (fresh self) Int32 [None, Some (max_length self)]))"
      "prem_cell g = Some (Cell (fresh self + 2) (cell_class self) (hidden_dim self)
          (hidden_activation self))"
      "prem_last g = Some (GetFinalState
          (Cell (fresh self + 2) (cell_class self) (hidden_dim self) (hidden_activation self))
          (DynamicRNNState ''premise''
             (Cell (fresh self + 2) (cell_class self) (hidden_dim self) (hidden_activation self))
             (EmbeddingLookup Embedding
                (Placeholder (fresh self) Int32 [None, Some (max_length self)]))
             (Placeholder (fresh self + 1) Int32 [None])))"
    and b: "hypotheses g = Some (Placeholder (fresh self + 3) Int32 [None, Some (max_length self)])"
      "hyp_lengths g = Some (Placeholder (fresh self + 4) Int32 [None])"
      "hyp_feats g = Some (EmbeddingLookup Embedding
          (Placeholder (fresh self + 3) Int32 [None, Some (max_length self)]))"
      "hyp_cell g = Some (Cell (fresh self + 5) (cell_class self) (hidden_dim self)
          (hidden_activation self))"
      "hyp_last g = Some (GetFinalState
          (Cell (fresh self + 5) (cell_class self) (hidden_dim self) (hidden_activation self))
          (DynamicRNNState ''hypothesis''
             (Cell (fresh self + 5) (cell_class self) (hidden_dim self) (hidden_activation self))
             (EmbeddingLookup Embedding
                (Placeholder (fresh self + 3) Int32 [None, Some (max_length self)]))
             (Placeholder (fresh self + 4) Int32 [None])))"
    and c: "outputs g = Some (Placeholder (fresh self + 6) Float32 [None, Some (output_dim self)])"
      "last g = Some (Concat (the (prem_last g)) (the (hyp_last g)) 1)"
      "last_dim g = Some (hidden_dim self * 2)"
      "W_ly g = Some (WeightInit (hidden_dim self * 2) (output_dim self) ''W_ly'')"
      "b_y g = Some (BiasInit (output_dim self) ''b_y'')"
      "model g = Some (Add (MatMul (the (last g)) (the (W_ly g))) (the (b_y g)))"
    using build_graph_attributes [of self] by blast
  have sets: "{fresh self, fresh self + 1} \<inter> {fresh self + 3, fresh self + 4} = {}"
    by simp
  have "\<exists>g p pl pc plast h hl hc hlast W b.
        build_graph self = Inr g
        \<and> p = Placeholder (fresh self) Int32 [None, Some (max_length self)]
        \<and> pl = Placeholder (fresh self + 1) Int32 [None]
        \<and> pc = Cell (fresh self + 2) (cell_class self) (hidden_dim self) (hidden_activation self)
        \<and> h = Placeholder (fresh self + 3) Int32 [None, Some (max_length self)]
        \<and> hl = Placeholder (fresh self + 4) Int32 [None]
        \<and> hc = Cell (fresh self + 5) (cell_class self) (hidden_dim self) (hidden_activation self)
        \<and> plast = GetFinalState pc (DynamicRNNState ''premise'' pc (EmbeddingLookup Embedding p) pl)
        \<and> hlast = GetFinalState hc (DynamicRNNState ''hypothesis'' hc (EmbeddingLookup Embedding h) hl)
        \<and> W = WeightInit (hidden_dim self * 2) (output_dim self) ''W_ly''
        \<and> b = BiasInit (output_dim self) ''b_y''
        \<and> premises_ph g = Some p \<and> prem_lengths g = Some pl
        \<and> prem_feats g = Some (EmbeddingLookup Embedding p)
        \<and> prem_cell g = Some pc \<and> prem_last g = Some plast
        \<and> hypotheses g = Some h \<and> hyp_lengths g = Some hl
        \<and> hyp_feats g = Some (EmbeddingLookup Embedding h)
        \<and> hyp_cell g = Some hc \<and> hyp_last g = Some hlast
        \<and> outputs g = Some (Placeholder (fresh self + 6) Float32 [None, Some (output_dim self)])
        \<and> last g = Some (Concat plast hlast 1)
        \<and> last_dim g = Some (hidden_dim self * 2)
        \<and> W_ly g = Some W \<and> b_y g = Some b
        \<and> model g = Some (Add (MatMul (Concat plast hlast 1) W) b)
        \<and> placeholders plast = {fresh self, fresh self + 1}
        \<and> placeholders hlast = {fresh self + 3, fresh self + 4}
        \<and> placeholders plast \<inter> placeholders hlast = {}
        \<and> cells plast = {pc} \<and> cells hlast = {hc} \<and> pc \<noteq> hc
        \<and> scopes plast = {''premise''} \<and> scopes hlast = {''hypothesis''}
        \<and> placeholders (Add (MatMul (Concat plast hlast 1) W) b)
              = {fresh self, fresh self + 1, fresh self + 3, fresh self + 4}"
    apply (rule exI [of _ g])
    apply (simp add: g a b c)
    apply auto
    done
  with phi show ?thesis by (rule conjI)
qed

section \<open>Feeding the sentence-encoding network\<close>

lemma min_list_const:
  "xs \<noteq> [] \<Longrightarrow> list_all (\<lambda>x. x = n) xs \<Longrightarrow> min_list xs = (n::nat)"
proof (induction xs)
  case Nil
  then show ?case by simp
next
  case (Cons x xs)
  then show ?case by (cases xs) auto
qed

lemma zip_star_pairs:
  assumes "X \<noteq> []" and "list_all (\<lambda>p. length p = 2) X"
  shows "zip_star X = [map (\<lambda>p. p ! 0) X, map (\<lambda>p. p ! 1) X]"
proof -
  have "list_all (\<lambda>n. n = 2) (map length X)"
    using assms(2) by (simp add: list_all_iff)
  with assms(1) have "min_list (map length X) = 2"
    by (simp add: min_list_const)
  moreover have "[0..<2] = [0, Suc 0]"
    by (simp add: upt_rec)
  ultimately show ?thesis using assms(1) by (simp add: zip_star_def)
qed

lemma unpack2_zip_star_empty: "unpack2 (zip_star []) = Inl ValueError"
  by (simp add: zip_star_def unpack2_def)

text \<open>
  Claim C10. For a non-empty \<open>X\<close> of (premise, hypothesis) pairs, unpacking \<^verbatim>\<open>zip(*X)\<close>
  yields exactly the sequence of premises and the sequence of hypotheses, and on a built
  graph \<open>train_dict\<close> and \<open>test_dict\<close> feed their conversions to the premise and the
  hypothesis placeholders. On the empty \<open>X\<close> the unpacking fails with \<^verbatim>\<open>ValueError\<close>, and
  so do both methods.
\<close>

theorem train_dict_unpacking:
  assumes "X \<noteq> []" and "list_all (\<lambda>p. length p = 2) X" and "build_graph self0 = Inr self"
  shows "unpack2 (zip_star X) = Inr (map (\<lambda>p. p ! 0) X, map (\<lambda>p. p ! 1) X)
    \<and> (\<exists>p h pl hl out.
          premises_ph self = Some p \<and> hypotheses self = Some h \<and> prem_lengths self = Some pl
          \<and> hyp_lengths self = Some hl \<and> outputs self = Some out
          \<and> train_dict self convert_X X y =
              Inr [(p, Tokens (fst (convert_X (map (\<lambda>p. p ! 0) X)))),
                   (h, Tokens (fst (convert_X (map (\<lambda>p. p ! 1) X)))),
                   (pl, Lengths (snd (convert_X (map (\<lambda>p. p ! 0) X)))),
                   (hl, Lengths (snd (convert_X (map (\<lambda>p. p ! 1) X)))),
                   (out, Labels y)]
          \<and> test_dict self convert_X X =
              Inr [(p, Tokens (fst (convert_X (map (\<lambda>p. p ! 0) X)))),
                   (h, Tokens (fst (convert_X (map (\<lambda>p. p ! 1) X)))),
                   (pl, Lengths (snd (convert_X (map (\<lambda>p. p ! 0) X)))),
                   (hl, Lengths (snd (convert_X (map (\<lambda>p. p ! 1) X))))])
    \<and> unpack2 (zip_star ([] :: 'w list list list)) = Inl ValueError
    \<and> train_dict self convert_X [] y = Inl ValueError
    \<and> test_dict self convert_X [] = Inl ValueError"
proof -
  have u: "unpack2 (zip_star X) = Inr (map (\<lambda>p. p ! 0) X, map (\<lambda>p. p ! 1) X)"
    by (simp add: zip_star_pairs [OF assms(1,2)] unpack2_def)
  from build_graph_attributes [of self0] assms(3)
  obtain p h pl hl out where at: "premises_ph self = Some p" "hypotheses self = Some h"
      "prem_lengths self = Some pl" "hyp_lengths self = Some hl" "outputs self = Some out"
    by auto
  have tr: "train_dict self convert_X X y =
              Inr [(p, Tokens (fst (convert_X (map (\<lambda>p. p ! 0) X)))),
                   (h, Tokens (fst (convert_X (map (\<lambda>p. p ! 1) X)))),
                   (pl, Lengths (snd (convert_X (map (\<lambda>p. p ! 0) X)))),
                   (hl, Lengths (snd (convert_X (map (\<lambda>p. p ! 1) X)))),
                   (out, Labels y)]"
    by (simp add: train_dict_def u at split_beta)
  have te: "test_dict self convert_X X =
              Inr [(p, Tokens (fst (convert_X (map (\<lambda>p. p ! 0) X)))),
                   (h, Tokens (fst (convert_X (map (\<lambda>p. p ! 1) X)))),
                   (pl, Lengths (snd (convert_X (map (\<lambda>p. p ! 0) X)))),
                   (hl, Lengths (snd (convert_X (map (\<lambda>p. p ! 1) X))))]"
    by (simp add: test_dict_def u at split_beta)
  have e: "unpack2 (zip_star ([] :: 'w list list list)) = Inl ValueError"
    by (rule unpack2_zip_star_empty)
  have e1: "train_dict self convert_X [] y = Inl ValueError"
    by (simp add: train_dict_def unpack2_zip_star_empty)
  have e2: "test_dict self convert_X [] = Inl ValueError"
    by (simp add: test_dict_def unpack2_zip_star_empty)
  from u at tr te e e1 e2 show ?thesis by blast
qed

theorem train_dict_unpacking_witness:
  "unpack2 (zip_star example_X)
     = Inr ([[''a'', ''dog'', ''ran''], [''the'', ''dog'']],
            [[''a'', ''dog'', ''moved''], [''a'', ''cat'']])
   \<and> (\<exists>self p h pl hl out.
         build_graph example_rnn = Inr self
         \<and> train_dict self example_convert_X example_X example_y =
             Inr [(p, Tokens [[''a'', ''dog'', ''ran''], [''the'', ''dog'']]),
                  (h, Tokens [[''a'', ''dog'', ''moved''], [''a'', ''cat'']]),
                  (pl, Lengths [3, 2]), (hl, Lengths [3, 2]), (out, Labels example_y)])"
proof -
  obtain self where b: "build_graph example_rnn = Inr self"
    using build_graph_attributes [of example_rnn] by blast
  have ne: "example_X \<noteq> []" and pairs: "list_all (\<lambda>p. length p = 2) example_X"
    by (simp_all add: example_X_def)
  have prem: "map (\<lambda>p. p ! 0) example_X = [[''a'', ''dog'', ''ran''], [''the'', ''dog'']]"
    and hyp: "map (\<lambda>p. p ! 1) example_X = [[''a'', ''dog'', ''moved''], [''a'', ''cat'']]"
    by (simp_all add: example_X_def)
  from train_dict_unpacking [OF ne pairs b, of example_convert_X example_y]
  show ?thesis
    unfolding prem hyp using b by (auto simp: example_convert_X_def)
qed

section \<open>Determinism and statelessness of the feature functions\<close>

lemma bind_apply:
  "bind m f s = (case m s of (Inl e, s') \<Rightarrow> (Inl e, s') | (Inr x, s') \<Rightarrow> f x s')"
  by (simp add: bind_def)




lemma new_apply:
  "new ob s = (Inr (next_addr s),
               s\<lparr>objs := (objs s)(next_addr s := ob), next_addr := Suc (next_addr s)\<rparr>)"
  by (simp add: new_def)
































lemma frame_refl: "frame s s"
  by (simp add: frame_def)






lemma assign_global_apply:
  "assign_global name v s = (Inr (), s\<lparr>globals := (globals s)(name \<mapsto> v)\<rparr>)"
  by (simp add: assign_global_def)



lemma example_notebook_settings:
  "globals example_notebook ''multinli_home'' = Some (Str multinli_home)"
  "globals example_notebook ''snli_home'' = Some (Str snli_home)"
  by (simp_all add: example_notebook_def cell_6_def cell_30_def empty_notebook_def
      bind_apply assign_global_apply new_apply)















end
